theory Spec2Isabelle
  imports Main "HOL-Library.Sublist" "HOL-Library.Char_ord" "HOL-Library.List_Lexorder"
begin

section \<open>The car-listing dashboard: ingestion, normalization and filtering\<close>

text \<open>
  The development embeds \<^verbatim>\<open>load_data\<close> and \<^verbatim>\<open>apply_filters\<close> of
  \<^verbatim>\<open>src/dash3.py\<close>. The program is written against three libraries (requests,
  pandas, streamlit); the calls it makes into them are embedded as far as the program
  depends on them, and what a library decides by itself (the date format inference, the
  frame built from a payload that is not a list of records) is a parameter.
\<close>

subsection \<open>Decoded JSON payloads\<close>

text \<open>
  A record of the payload maps field names to scalars. JSON numbers with a fractional
  part are not part of the model: a number is an integer. A mapping is the association
  list of a Python dict, so its keys are distinct and in insertion order.
\<close>

datatype scalar = SNull | SBool bool | SInt int | SStr string

datatype json = JScalar scalar | JList "json list" | JDict "(string \<times> json) list"

subsection \<open>Cells and tables\<close>

text \<open>
  A cell of a data frame. \<open>CNull\<close> stands for every missing marker of pandas
  (\<^verbatim>\<open>None\<close>, \<^verbatim>\<open>NaN\<close>, \<^verbatim>\<open>pd.NA\<close>, \<^verbatim>\<open>NaT\<close>). \<open>CFloat n\<close> is the
  float64 that holds the integer \<open>n\<close>: a column of integers that also has a missing
  cell is stored as float64 by pandas. \<open>CTime t\<close> is a timestamp, in nanoseconds since
  the epoch.
\<close>

datatype cell = CNull | CBool bool | CInt int | CFloat int | CStr string | CTime int

record table =
  columns :: "string list"
  rows :: "cell list list"

definition empty_table :: table where
  "empty_table = \<lparr>columns = [], rows = []\<rparr>"

definition well_formed :: "table \<Rightarrow> bool" where
  "well_formed df = list_all (\<lambda>r. length r = length (columns df)) (rows df)"

text \<open>\<^verbatim>\<open>len(df)\<close> and \<^verbatim>\<open>df.empty\<close>.\<close>

definition len :: "table \<Rightarrow> nat" where
  "len df = length (rows df)"

definition is_empty :: "table \<Rightarrow> bool" where
  "is_empty df = (columns df = [] \<or> rows df = [])"

text \<open>Position of a column label, \<^verbatim>\<open>col in df.columns\<close>, \<^verbatim>\<open>df[col]\<close> and
  \<^verbatim>\<open>df[col] = values\<close>.\<close>

fun index_of :: "string \<Rightarrow> string list \<Rightarrow> nat option" where
  "index_of c [] = None"
| "index_of c (x # xs) =
     (if x = c then Some 0 else map_option Suc (index_of c xs))"

definition get_col :: "nat \<Rightarrow> cell list list \<Rightarrow> cell list" where
  "get_col i rs = map (\<lambda>r. r ! i) rs"

definition set_col :: "nat \<Rightarrow> cell list \<Rightarrow> cell list list \<Rightarrow> cell list list" where
  "set_col i vs rs = map (\<lambda>(r, v). r[i := v]) (zip rs vs)"

subsection \<open>Text of a cell: \<^verbatim>\<open>astype(str)\<close>\<close>

definition digit_char :: "nat \<Rightarrow> char" where
  "digit_char d = ''0123456789'' ! d"

fun dec :: "nat \<Rightarrow> string" where
  "dec n = (if n < 10 then [digit_char n] else dec (n div 10) @ [digit_char (n mod 10)])"

declare dec.simps [simp del]

definition str_int :: "int \<Rightarrow> string" where
  "str_int n = (if n < 0 then CHR ''-'' # dec (nat (- n)) else dec (nat n))"

text \<open>
  The text of a float64 that holds an integer is the integer followed by \<^verbatim>\<open>.0\<close>
  (below \<open>10 ^ 16\<close>; Python switches to the exponent notation from there, which is
  outside the model). The text of a timestamp is the library's, a parameter.
\<close>

definition py_str :: "(int \<Rightarrow> string) \<Rightarrow> cell \<Rightarrow> string" where
  "py_str time_text c =
     (case c of
        CNull \<Rightarrow> ''nan''
      | CBool b \<Rightarrow> (if b then ''True'' else ''False'')
      | CInt n \<Rightarrow> str_int n
      | CFloat n \<Rightarrow> str_int n @ ''.0''
      | CStr s \<Rightarrow> s
      | CTime t \<Rightarrow> time_text t)"

subsection \<open>Numeric coercion of a column (lines 48 to 50)\<close>

definition is_digit :: "char \<Rightarrow> bool" where
  "is_digit c = (CHR ''0'' \<le> c \<and> c \<le> CHR ''9'')"

text \<open>\<^verbatim>\<open>.str.replace(r'[^0-9]', '', regex=True)\<close>\<close>

definition strip_non_digits :: "string \<Rightarrow> string" where
  "strip_non_digits s = filter is_digit s"

definition digit_val :: "char \<Rightarrow> nat" where
  "digit_val c = of_char c - 48"

definition read_digits :: "string \<Rightarrow> nat" where
  "read_digits s = foldl (\<lambda>n c. 10 * n + digit_val c) 0 s"

text \<open>
  One value of the column: its text, the digits of the text, the empty text replaced
  by the missing marker, the rest read as a number.
\<close>

definition clean_value :: "(int \<Rightarrow> string) \<Rightarrow> cell \<Rightarrow> nat option" where
  "clean_value time_text c =
     (let cleaned = strip_non_digits (py_str time_text c)
      in if cleaned = [] then None else Some (read_digits cleaned))"

text \<open>
  \<^verbatim>\<open>pd.to_numeric(cleaned, errors='coerce')\<close>: the column is int64 when no value is
  missing and float64 otherwise. A run of digits is read as the number it writes; the
  rounding of a number beyond the range of int64 or the precision of float64 is outside
  the model.
\<close>

definition to_numeric :: "nat option list \<Rightarrow> cell list" where
  "to_numeric vs =
     (if list_all (\<lambda>v. v \<noteq> None) vs
      then map (\<lambda>v. case v of Some n \<Rightarrow> CInt (int n) | None \<Rightarrow> CNull) vs
      else map (\<lambda>v. case v of Some n \<Rightarrow> CFloat (int n) | None \<Rightarrow> CNull) vs)"

definition clean_column :: "(int \<Rightarrow> string) \<Rightarrow> cell list \<Rightarrow> cell list" where
  "clean_column time_text col = to_numeric (map (clean_value time_text) col)"

subsection \<open>Exceptions and the library parameters\<close>

text \<open>
  The subclasses of \<^verbatim>\<open>requests.exceptions.RequestException\<close> that the request
  can raise, and the exceptions of the body of \<^verbatim>\<open>load_data\<close>.
\<close>

datatype request_failure = ConnectionError | Timeout | HTTPError nat | OtherRequestFailure

datatype exn = RequestException request_failure | ValueError | TypeError | OtherException

text \<open>A response: its status code and its body decoded as JSON, if it is JSON.\<close>

datatype response = Response nat "json option"

text \<open>
  What the libraries decide by themselves: the text of a timestamp, the timestamp that
  the format inference of \<^verbatim>\<open>pd.to_datetime\<close> reads in a cell of a column (none when
  the cell cannot be parsed), the frame that \<^verbatim>\<open>pd.DataFrame\<close> builds from a payload
  that is neither a list of records nor one of the shapes embedded below, and the
  exception that \<^verbatim>\<open>response.json()\<close> raises on a body that is not JSON.
\<close>

record lib =
  time_text :: "int \<Rightarrow> string"
  infer_datetime :: "cell list \<Rightarrow> cell \<Rightarrow> int option"
  frame_other :: "json \<Rightarrow> exn + table"
  decode_error :: exn

subsection \<open>\<^verbatim>\<open>pd.DataFrame(payload)\<close>\<close>

fun is_record :: "json \<Rightarrow> bool" where
  "is_record (JDict kvs) = list_all (\<lambda>(k, v). case v of JScalar _ \<Rightarrow> True | _ \<Rightarrow> False) kvs"
| "is_record _ = False"

fun record_keys :: "json \<Rightarrow> string list" where
  "record_keys (JDict kvs) = map fst kvs"
| "record_keys _ = []"

definition add_key :: "string list \<Rightarrow> string \<Rightarrow> string list" where
  "add_key acc k = (if k \<in> set acc then acc else acc @ [k])"

text \<open>The column labels: the keys of the records, in the order of their first
  appearance.\<close>

definition all_keys :: "json list \<Rightarrow> string list" where
  "all_keys recs = foldl add_key [] (concat (map record_keys recs))"

fun cell_of_scalar :: "scalar \<Rightarrow> cell" where
  "cell_of_scalar SNull = CNull"
| "cell_of_scalar (SBool b) = CBool b"
| "cell_of_scalar (SInt n) = CInt n"
| "cell_of_scalar (SStr s) = CStr s"

text \<open>The value of a record at a key; a record without the key has a missing cell.\<close>

fun record_cell :: "json \<Rightarrow> string \<Rightarrow> cell" where
  "record_cell (JDict kvs) k =
     (case map_of kvs k of Some (JScalar s) \<Rightarrow> cell_of_scalar s | _ \<Rightarrow> CNull)"
| "record_cell _ k = CNull"

fun is_null :: "cell \<Rightarrow> bool" where
  "is_null CNull = True"
| "is_null _ = False"

fun is_int :: "cell \<Rightarrow> bool" where
  "is_int (CInt n) = True"
| "is_int _ = False"

text \<open>
  The type of a column: a column of integers with a missing cell becomes float64, the
  missing cells being \<^verbatim>\<open>NaN\<close>; every other column keeps its values.
\<close>

definition float_column :: "cell list \<Rightarrow> bool" where
  "float_column col =
     (list_ex is_null col \<and> list_ex is_int col \<and> list_all (\<lambda>c. is_null c \<or> is_int c) col)"

fun upcast :: "cell \<Rightarrow> cell" where
  "upcast (CInt n) = CFloat n"
| "upcast c = c"

definition frame_cell :: "json list \<Rightarrow> json \<Rightarrow> string \<Rightarrow> cell" where
  "frame_cell recs r k =
     (if float_column (map (\<lambda>r'. record_cell r' k) recs)
      then upcast (record_cell r k) else record_cell r k)"

definition from_records :: "json list \<Rightarrow> table" where
  "from_records recs =
     \<lparr>columns = all_keys recs,
      rows = map (\<lambda>r. map (frame_cell recs r) (all_keys recs)) recs\<rparr>"

text \<open>
  The constructor. A list of records is one row per record. A scalar other than
  \<^verbatim>\<open>None\<close> raises \<^verbatim>\<open>ValueError\<close> (the constructor is not properly called), and so
  does a mapping of scalars (all scalar values and no index); \<^verbatim>\<open>None\<close> and the empty
  mapping give the empty frame.
\<close>

fun DataFrame :: "lib \<Rightarrow> json \<Rightarrow> exn + table" where
  "DataFrame L (JList xs) =
     (if list_all is_record xs then Inr (from_records xs) else frame_other L (JList xs))"
| "DataFrame L (JDict kvs) =
     (if kvs = [] then Inr empty_table
      else if is_record (JDict kvs) then Inl ValueError
      else frame_other L (JDict kvs))"
| "DataFrame L (JScalar s) = (if s = SNull then Inr empty_table else Inl ValueError)"

subsection \<open>Normalization (lines 46 to 54)\<close>

definition clean_numeric :: "lib \<Rightarrow> string \<Rightarrow> table \<Rightarrow> table" where
  "clean_numeric L col df =
     (case index_of col (columns df) of
        None \<Rightarrow> df
      | Some i \<Rightarrow>
          df\<lparr>rows := set_col i (clean_column (time_text L) (get_col i (rows df))) (rows df)\<rparr>)"

text \<open>
  \<^verbatim>\<open>pd.to_datetime(column, errors='coerce')\<close>: a timestamp stays, a missing cell
  stays missing, any other cell is parsed or becomes missing.
\<close>

definition to_datetime :: "lib \<Rightarrow> cell list \<Rightarrow> cell list" where
  "to_datetime L col =
     map (\<lambda>c. case c of
                 CNull \<Rightarrow> CNull
               | CTime t \<Rightarrow> CTime t
               | _ \<Rightarrow> (case infer_datetime L col c of Some t \<Rightarrow> CTime t | None \<Rightarrow> CNull)) col"

definition convert_date :: "lib \<Rightarrow> table \<Rightarrow> table" where
  "convert_date L df =
     (case index_of ''DateScraping'' (columns df) of
        None \<Rightarrow> df
      | Some i \<Rightarrow> df\<lparr>rows := set_col i (to_datetime L (get_col i (rows df))) (rows df)\<rparr>)"

definition normalize :: "lib \<Rightarrow> table \<Rightarrow> table" where
  "normalize L df =
     convert_date L (clean_numeric L ''Mc'' (clean_numeric L ''Prix'' (clean_numeric L ''Km'' df)))"

subsection \<open>\<^verbatim>\<open>load_data\<close>\<close>

text \<open>\<^verbatim>\<open>response.raise_for_status()\<close> raises on the statuses 400 to 599.\<close>

definition raise_for_status :: "nat \<Rightarrow> exn + unit" where
  "raise_for_status status =
     (if 400 \<le> status \<and> status < 600 then Inl (RequestException (HTTPError status))
      else Inr ())"

text \<open>The frame of the payload, lines 35 to 43; a payload that is neither a list nor a
  mapping returns the empty frame at once.\<close>

datatype shaped = Frame table | Return table

definition shape :: "lib \<Rightarrow> json \<Rightarrow> exn + shaped" where
  "shape L data =
     (case data of
        JList xs \<Rightarrow> map_sum id Frame (DataFrame L data)
      | JDict kvs \<Rightarrow>
          (case map_of kvs ''data'' of
             Some d \<Rightarrow> map_sum id Frame (DataFrame L d)
           | None \<Rightarrow> map_sum id Frame (DataFrame L (JList [data])))
      | JScalar s \<Rightarrow> Inr (Return empty_table))"

text \<open>The body of the \<^verbatim>\<open>try\<close> block, from the outcome of \<^verbatim>\<open>requests.get\<close>.\<close>

definition load_body :: "lib \<Rightarrow> request_failure + response \<Rightarrow> exn + table" where
  "load_body L got =
     (case got of
        Inl f \<Rightarrow> Inl (RequestException f)
      | Inr (Response status body) \<Rightarrow>
          (case raise_for_status status of
             Inl e \<Rightarrow> Inl e
           | Inr _ \<Rightarrow>
               (case body of
                  None \<Rightarrow> Inl (decode_error L)
                | Some data \<Rightarrow>
                    (case shape L data of
                       Inl e \<Rightarrow> Inl e
                     | Inr (Return df) \<Rightarrow> Inr df
                     | Inr (Frame df) \<Rightarrow> Inr (normalize L df)))))"

text \<open>The messages of \<^verbatim>\<open>st.error\<close>, line 59 and line 62.\<close>

datatype report = FetchError request_failure | ProcessingError exn

definition load_data :: "lib \<Rightarrow> request_failure + response \<Rightarrow> table \<times> report list" where
  "load_data L got =
     (case load_body L got of
        Inr df \<Rightarrow> (df, [])
      | Inl (RequestException f) \<Rightarrow> (empty_table, [FetchError f])
      | Inl e \<Rightarrow> (empty_table, [ProcessingError e]))"

subsection \<open>The cache in front of \<^verbatim>\<open>load_data\<close> (line 26)\<close>

text \<open>
  The state of the process as far as \<^verbatim>\<open>load_data\<close> goes: the number of requests
  sent so far, and the single slot of \<^verbatim>\<open>st.cache_data(ttl=300)\<close>, which holds the time
  of the call that filled it and what that call returned, messages included (the
  decorator replays them). The function has no argument, so there is one slot. The
  network is a function from the number of a request to its outcome; the clock is in
  seconds.
\<close>

record app =
  requests :: nat
  cache :: "(nat \<times> (table \<times> report list)) option"

definition ttl :: nat where
  "ttl = 300"

text \<open>A run of the body of \<^verbatim>\<open>load_data\<close>: one request, line 30.\<close>

definition run_load_data ::
  "lib \<Rightarrow> (nat \<Rightarrow> request_failure + response) \<Rightarrow> app \<Rightarrow> (table \<times> report list) \<times> app" where
  "run_load_data L net s = (load_data L (net (requests s)), s\<lparr>requests := Suc (requests s)\<rparr>)"

definition refresh ::
  "lib \<Rightarrow> (nat \<Rightarrow> request_failure + response) \<Rightarrow> nat \<Rightarrow> app \<Rightarrow> (table \<times> report list) \<times> app" where
  "refresh L net now s =
     (case run_load_data L net s of (res, s') \<Rightarrow> (res, s'\<lparr>cache := Some (now, res)\<rparr>))"

text \<open>A call of the decorated function at the time \<open>now\<close>.\<close>

definition cached_load_data ::
  "lib \<Rightarrow> (nat \<Rightarrow> request_failure + response) \<Rightarrow> nat \<Rightarrow> app \<Rightarrow> (table \<times> report list) \<times> app" where
  "cached_load_data L net now s =
     (case cache s of
        Some (t, res) \<Rightarrow> (if now < t + ttl then (res, s) else refresh L net now s)
      | None \<Rightarrow> refresh L net now s)"

text \<open>\<^verbatim>\<open>st.cache_data.clear()\<close>, line 324.\<close>

definition clear_cache :: "app \<Rightarrow> app" where
  "clear_cache s = s\<lparr>cache := None\<rparr>"

subsection \<open>\<^verbatim>\<open>apply_filters\<close>\<close>

text \<open>
  Python's equality of two cells: a missing cell equals nothing, numbers are compared
  by value (\<^verbatim>\<open>True\<close> is 1), a text equals the same text only.
\<close>

fun num_of :: "cell \<Rightarrow> int option" where
  "num_of (CBool b) = Some (if b then 1 else 0)"
| "num_of (CInt n) = Some n"
| "num_of (CFloat n) = Some n"
| "num_of _ = None"

definition py_eq :: "cell \<Rightarrow> cell \<Rightarrow> bool" where
  "py_eq c d =
     (if is_null c \<or> is_null d then False
      else (case (num_of c, num_of d) of
              (Some a, Some b) \<Rightarrow> a = b
            | (None, None) \<Rightarrow> c = d
            | _ \<Rightarrow> False))"

text \<open>\<^verbatim>\<open>.dropna()\<close> and \<^verbatim>\<open>.unique()\<close>, which keeps the first of equal values.\<close>

definition dropna :: "cell list \<Rightarrow> cell list" where
  "dropna col = filter (\<lambda>c. \<not> is_null c) col"

definition unique :: "cell list \<Rightarrow> cell list" where
  "unique col = foldl (\<lambda>acc c. if list_ex (py_eq c) acc then acc else acc @ [c]) [] col"

fun is_str :: "cell \<Rightarrow> bool" where
  "is_str (CStr s) = True"
| "is_str _ = False"

fun is_time :: "cell \<Rightarrow> bool" where
  "is_time (CTime t) = True"
| "is_time _ = False"

fun text_of :: "cell \<Rightarrow> string" where
  "text_of (CStr s) = s"
| "text_of _ = []"

fun time_of :: "cell \<Rightarrow> int" where
  "time_of (CTime t) = t"
| "time_of _ = 0"

text \<open>
  \<^verbatim>\<open>sorted(values)\<close>: texts are ordered among themselves, and so are numbers and
  timestamps; the comparison of values of two kinds raises \<^verbatim>\<open>TypeError\<close>.
\<close>

definition py_sorted :: "cell list \<Rightarrow> exn + cell list" where
  "py_sorted vs =
     (if list_all is_str vs then Inr (sort_key text_of vs)
      else if list_all (\<lambda>c. num_of c \<noteq> None) vs then Inr (sort_key (\<lambda>c. the (num_of c)) vs)
      else if list_all is_time vs then Inr (sort_key time_of vs)
      else Inl TypeError)"

text \<open>
  One of the six blocks of the function. The choice made in the select box is a
  parameter: \<open>select col options\<close> is the option chosen in the box of the column
  \<open>col\<close>. The options are computed from the table given to the function, the rows are
  taken from the table filtered so far.
\<close>

definition filter_step ::
  "(string \<Rightarrow> cell list \<Rightarrow> cell) \<Rightarrow> table \<Rightarrow> exn + table \<Rightarrow> string \<Rightarrow> exn + table" where
  "filter_step select df acc col =
     (case acc of
        Inl e \<Rightarrow> Inl e
      | Inr filtered_df \<Rightarrow>
          (case index_of col (columns df) of
             None \<Rightarrow> Inr filtered_df
           | Some i \<Rightarrow>
               (case py_sorted (unique (dropna (get_col i (rows df)))) of
                  Inl e \<Rightarrow> Inl e
                | Inr vals \<Rightarrow>
                    (let selected = select col (CStr ''Tous'' # vals)
                     in if selected \<noteq> CStr ''Tous''
                        then Inr (filtered_df\<lparr>rows :=
                               filter (\<lambda>r. py_eq (r ! i) selected) (rows filtered_df)\<rparr>)
                        else Inr filtered_df))))"

definition filter_columns :: "string list" where
  "filter_columns = [''Source'', ''Transmission'', ''Carburant'', ''Statut'', ''Marque'', ''Etat'']"

definition apply_filters :: "(string \<Rightarrow> cell list \<Rightarrow> cell) \<Rightarrow> table \<Rightarrow> exn + table" where
  "apply_filters select df = foldl (filter_step select df) (Inr df) filter_columns"

subsection \<open>Predicates of the properties and concrete inputs\<close>


fun is_stamp :: "cell \<Rightarrow> bool" where
  "is_stamp CNull = True"
| "is_stamp (CTime t) = True"
| "is_stamp _ = False"

definition column_ok :: "(cell \<Rightarrow> bool) \<Rightarrow> string \<Rightarrow> table \<Rightarrow> bool" where
  "column_ok P col df =
     (case index_of col (columns df) of
        None \<Rightarrow> True
      | Some i \<Rightarrow> list_all P (get_col i (rows df)))"


text \<open>An int64 column of natural numbers, nothing missing.\<close>

fun is_nat_int :: "cell \<Rightarrow> bool" where
  "is_nat_int (CInt n) = (0 \<le> n)"
| "is_nat_int _ = False"

text \<open>A library for the concrete inputs: no timestamp is parsed, and the frames that
  are not embedded raise.\<close>

definition stub_lib :: lib where
  "stub_lib =
     \<lparr>time_text = (\<lambda>t. []), infer_datetime = (\<lambda>col c. None),
      frame_other = (\<lambda>j. Inl OtherException), decode_error = ValueError\<rparr>"

section \<open>Properties\<close>

lemma strip_12345: "strip_non_digits ''12 345 MAD'' = ''12345''"
  by (simp add: strip_non_digits_def is_digit_def)

lemma strip_85000: "strip_non_digits ''85.000 MAD'' = ''85000''"
  by (simp add: strip_non_digits_def is_digit_def)

lemma strip_MAD: "strip_non_digits ''MAD'' = []"
  by (simp add: strip_non_digits_def is_digit_def)


subsection \<open>Unfolding for concrete inputs\<close>

lemmas frame_defs = from_records_def all_keys_def add_key_def frame_cell_def float_column_def

lemmas norm_defs = normalize_def clean_numeric_def convert_date_def get_col_def set_col_def
  clean_column_def clean_value_def to_numeric_def py_str_def strip_non_digits_def is_digit_def
  read_digits_def digit_val_def to_datetime_def Let_def

lemmas load_defs = load_data_def load_body_def shape_def raise_for_status_def

subsection \<open>Row count and column labels under normalization\<close>

lemma length_clean_column: "length (clean_column tt col) = length col"
  by (simp add: clean_column_def to_numeric_def)

lemma length_to_datetime: "length (to_datetime L col) = length col"
  by (simp add: to_datetime_def)

lemma length_set_col: "length vs = length rs \<Longrightarrow> length (set_col i vs rs) = length rs"
  by (simp add: set_col_def)

lemma length_get_col: "length (get_col i rs) = length rs"
  by (simp add: get_col_def)

lemma len_clean_numeric: "len (clean_numeric L c df) = len df"
  by (simp add: clean_numeric_def len_def length_set_col length_clean_column length_get_col
      split: option.splits)

lemma len_convert_date: "len (convert_date L df) = len df"
  by (simp add: convert_date_def len_def length_set_col length_to_datetime length_get_col
      split: option.splits)

lemma len_normalize: "len (normalize L df) = len df"
  by (simp add: normalize_def len_convert_date len_clean_numeric)

lemma columns_clean_numeric: "columns (clean_numeric L c df) = columns df"
  by (simp add: clean_numeric_def split: option.splits)

lemma columns_convert_date: "columns (convert_date L df) = columns df"
  by (simp add: convert_date_def split: option.splits)

lemma columns_normalize: "columns (normalize L df) = columns df"
  by (simp add: normalize_def columns_convert_date columns_clean_numeric)

text \<open>
  Claim C7. When the payload is a list of records and the status raises nothing, the
  table that \<^verbatim>\<open>load_data\<close> returns has one row per element of the list, and nothing
  is reported; the empty list gives a table without rows.
\<close>

theorem load_data_rows:
  "list_all is_record xs \<Longrightarrow> raise_for_status status = Inr () \<Longrightarrow>
     len (fst (load_data L (Inr (Response status (Some (JList xs)))))) = length xs
     \<and> snd (load_data L (Inr (Response status (Some (JList xs))))) = []"
  by (simp add: load_data_def load_body_def shape_def len_normalize)
     (simp add: len_def from_records_def)

theorem load_data_rows_witness:
  "len (fst (load_data stub_lib (Inr (Response 200 (Some (JList
      [JDict [(''Km'', JScalar (SStr ''120 000 km'')), (''Marque'', JScalar (SStr ''Dacia''))],
       JDict [(''Prix'', JScalar (SInt 5))]])))))) = 2
   \<and> len (fst (load_data stub_lib (Inr (Response 200 (Some (JList [])))))) = 0
   \<and> snd (load_data stub_lib (Inr (Response 200 (Some (JList []))))) = []"
  using load_data_rows [of "[JDict [(''Km'', JScalar (SStr ''120 000 km'')),
            (''Marque'', JScalar (SStr ''Dacia''))], JDict [(''Prix'', JScalar (SInt 5))]]"
          200 stub_lib]
    load_data_rows [of "[]" 200 stub_lib]
  by (simp add: raise_for_status_def)

subsection \<open>Payloads that are not a list of records\<close>

text \<open>
  Claim C2, as stated: a body that is JSON but neither a list nor a mapping gives the
  empty table and a reported processing error. At the payload \<^verbatim>\<open>"unexpected-scalar"\<close>
  the table is empty and nothing is reported.
\<close>

theorem scalar_payload_counterexample:
  "load_data stub_lib (Inr (Response 200 (Some (JScalar (SStr ''unexpected-scalar'')))))
     = (empty_table, [])"
  by (simp add: load_data_def load_body_def shape_def raise_for_status_def)

text \<open>
  Claim C2, amended: a body that is JSON but neither a list nor a mapping gives the
  empty table and no report (line 43 returns before any message).
\<close>

theorem scalar_payload_silent:
  "raise_for_status status = Inr () \<Longrightarrow>
     load_data L (Inr (Response status (Some (JScalar s)))) = (empty_table, [])"
  by (simp add: load_data_def load_body_def shape_def)

theorem scalar_payload_silent_witness:
  "raise_for_status 200 = Inr ()
   \<and> load_data stub_lib (Inr (Response 200 (Some (JScalar (SInt 7))))) = (empty_table, [])"
  using scalar_payload_silent [of 200 stub_lib "SInt 7"]
  by (simp add: raise_for_status_def)

text \<open>
  Claim C4, as stated: the value at the key \<^verbatim>\<open>data\<close>, when it is not a sequence, is
  wrapped as a table of one row. At the payload \<^verbatim>\<open>{"data": {"Km": "5"}}\<close> the
  constructor raises, and the result is the empty table with a processing error.
\<close>

theorem data_key_counterexample:
  "load_data stub_lib (Inr (Response 200 (Some
      (JDict [(''data'', JDict [(''Km'', JScalar (SStr ''5''))])]))))
     = (empty_table, [ProcessingError ValueError])"
  by (simp add: load_data_def load_body_def shape_def raise_for_status_def)

text \<open>
  Claim C4, amended: for a mapping with the key \<^verbatim>\<open>data\<close>, the value at the key is
  given to the frame constructor as it is. A list of records becomes the normalized
  table of one row per element, with no report; a mapping of scalars that is not empty,
  or a scalar other than null, makes the constructor raise, and the result is the empty
  table with a processing error.
\<close>

theorem data_key_frame:
  "raise_for_status status = Inr () \<Longrightarrow> map_of kvs ''data'' = Some d \<Longrightarrow>
     (\<forall>xs. d = JList xs \<and> list_all is_record xs \<longrightarrow>
        load_data L (Inr (Response status (Some (JDict kvs))))
          = (normalize L (from_records xs), [])
        \<and> len (normalize L (from_records xs)) = length xs)
     \<and> (\<forall>fs. d = JDict fs \<and> fs \<noteq> [] \<and> is_record d \<longrightarrow>
        load_data L (Inr (Response status (Some (JDict kvs))))
          = (empty_table, [ProcessingError ValueError]))
     \<and> (\<forall>s. d = JScalar s \<and> s \<noteq> SNull \<longrightarrow>
        load_data L (Inr (Response status (Some (JDict kvs))))
          = (empty_table, [ProcessingError ValueError]))"
  by (auto simp add: load_data_def load_body_def shape_def len_normalize)
     (simp add: len_def from_records_def)

theorem data_key_frame_witness:
  "load_data stub_lib (Inr (Response 200 (Some (JDict [(''data'', JList
      [JDict [(''Km'', JScalar (SStr ''120 000 km'')), (''Prix'', JScalar (SStr ''85.000 MAD'')),
              (''Marque'', JScalar (SStr ''Dacia''))]])]))))
     = (\<lparr>columns = [''Km'', ''Prix'', ''Marque''],
         rows = [[CInt 120000, CInt 85000, CStr ''Dacia'']]\<rparr>, [])
   \<and> load_data stub_lib (Inr (Response 200 (Some (JDict [(''data'', JScalar (SInt 3))]))))
     = (empty_table, [ProcessingError ValueError])"
proof -
  have ok: "raise_for_status 200 = Inr ()"
    by (simp add: raise_for_status_def)
  let ?recs = "[JDict [(''Km'', JScalar (SStr ''120 000 km'')),
      (''Prix'', JScalar (SStr ''85.000 MAD'')), (''Marque'', JScalar (SStr ''Dacia''))]]"
  have a: "map_of [(''data'', JList ?recs)] ''data'' = Some (JList ?recs)"
    by simp
  have b: "map_of [(''data'', JScalar (SInt 3))] ''data'' = Some (JScalar (SInt 3))"
    by simp
  have f: "from_records ?recs
      = \<lparr>columns = [''Km'', ''Prix'', ''Marque''],
         rows = [[CStr ''120 000 km'', CStr ''85.000 MAD'', CStr ''Dacia'']]\<rparr>"
    by (simp add: frame_defs)
  have n: "normalize stub_lib (from_records ?recs)
      = \<lparr>columns = [''Km'', ''Prix'', ''Marque''],
         rows = [[CInt 120000, CInt 85000, CStr ''Dacia'']]\<rparr>"
    unfolding f by (simp add: norm_defs stub_lib_def)
  have r: "list_all is_record ?recs"
    by simp
  from data_key_frame [OF ok a, of stub_lib] r n
  have first: "load_data stub_lib (Inr (Response 200 (Some (JDict [(''data'', JList ?recs)]))))
      = (\<lparr>columns = [''Km'', ''Prix'', ''Marque''],
          rows = [[CInt 120000, CInt 85000, CStr ''Dacia'']]\<rparr>, [])"
    by metis
  from data_key_frame [OF ok b, of stub_lib]
  have second: "load_data stub_lib (Inr (Response 200 (Some (JDict [(''data'', JScalar (SInt 3))]))))
      = (empty_table, [ProcessingError ValueError])"
    by simp
  from first second show ?thesis by (rule conjI)
qed

subsection \<open>Failures of the request\<close>



subsection \<open>The cache\<close>

text \<open>
  Claim C8. After a call that filled the cache at the time \<open>t0\<close>, a call before
  \<open>t0 + 300\<close> returns the result of the first call and sends no request, whatever the
  network has become; a call from \<open>t0 + 300\<close> on, or a call after the cache has been
  cleared, sends a request and returns its result.
\<close>

theorem cache_window:
  "cached_load_data L net t0 s0 = (r1, s1) \<Longrightarrow> cache s0 = None \<Longrightarrow>
     r1 = load_data L (net (requests s0)) \<and> requests s1 = Suc (requests s0)
     \<and> (t1 < t0 + 300 \<longrightarrow> cached_load_data L net' t1 s1 = (r1, s1))
     \<and> (t0 + 300 \<le> t1 \<longrightarrow>
          cached_load_data L net' t1 s1
            = (load_data L (net' (requests s1)),
               s1\<lparr>requests := Suc (requests s1),
                  cache := Some (t1, load_data L (net' (requests s1)))\<rparr>))
     \<and> cached_load_data L net' t1 (clear_cache s1)
          = (load_data L (net' (requests s1)),
             s1\<lparr>requests := Suc (requests s1),
                cache := Some (t1, load_data L (net' (requests s1)))\<rparr>)"
  by (auto simp add: cached_load_data_def refresh_def run_load_data_def clear_cache_def ttl_def)

theorem cache_window_witness:
  "cached_load_data stub_lib (\<lambda>k. Inl ConnectionError) 1299
      \<lparr>requests = 1, cache = Some (1000, (empty_table, []))\<rparr>
     = ((empty_table, []), \<lparr>requests = 1, cache = Some (1000, (empty_table, []))\<rparr>)
   \<and> fst (cached_load_data stub_lib (\<lambda>k. Inl ConnectionError) 1300
      \<lparr>requests = 1, cache = Some (1000, (empty_table, []))\<rparr>)
     = (empty_table, [FetchError ConnectionError])"
proof -
  let ?net = "\<lambda>k::nat. (Inr (Response 200 (Some (JList []))) :: request_failure + response)"
  let ?down = "\<lambda>k::nat. (Inl ConnectionError :: request_failure + response)"
  let ?s1 = "\<lparr>requests = 1, cache = Some (1000, (empty_table, []))\<rparr>"
  have first: "cached_load_data stub_lib ?net 1000 \<lparr>requests = 0, cache = None\<rparr>
      = ((empty_table, []), ?s1)"
    by (simp add: cached_load_data_def refresh_def run_load_data_def load_defs frame_defs
        norm_defs empty_table_def)
  have empty: "cache \<lparr>requests = 0, cache = None\<rparr> = None"
    by simp
  have down: "load_data stub_lib (Inl ConnectionError) = (empty_table, [FetchError ConnectionError])"
    by (simp add: load_data_def load_body_def)
  from cache_window [OF first empty, of 1299 ?down]
  have "(1299::nat) < 1000 + 300 \<longrightarrow>
      cached_load_data stub_lib ?down 1299 ?s1 = ((empty_table, []), ?s1)"
    by blast
  then have hit: "cached_load_data stub_lib ?down 1299 ?s1 = ((empty_table, []), ?s1)"
    by simp
  from cache_window [OF first empty, of 1300 ?down]
  have "(1000::nat) + 300 \<le> 1300 \<longrightarrow>
      cached_load_data stub_lib ?down 1300 ?s1
        = (load_data stub_lib (?down (requests ?s1)),
           ?s1\<lparr>requests := Suc (requests ?s1),
              cache := Some (1300, load_data stub_lib (?down (requests ?s1)))\<rparr>)"
    by blast
  with down have miss: "fst (cached_load_data stub_lib ?down 1300 ?s1)
      = (empty_table, [FetchError ConnectionError])"
    by simp
  from hit miss show ?thesis by (rule conjI)
qed

subsection \<open>The invariant of the normalized table\<close>


lemma get_set_col_other:
  "length vs = length rs \<Longrightarrow> i \<noteq> j \<Longrightarrow> get_col i (set_col j vs rs) = get_col i rs"
  unfolding get_col_def set_col_def
  by (induction rs arbitrary: vs) (auto simp: length_Suc_conv)

lemma row_lengths_set_col:
  "list_all (\<lambda>r. length r = n) rs \<Longrightarrow> list_all (\<lambda>r. length r = n) (set_col i vs rs)"
  unfolding set_col_def
  by (induction rs arbitrary: vs) (auto simp: zip_Cons1 split: list.splits)

lemma index_of_less: "index_of c cs = Some i \<Longrightarrow> i < length cs \<and> cs ! i = c"
  by (induction cs arbitrary: i) (auto split: if_splits)






lemma wf_convert_date: "well_formed df \<Longrightarrow> well_formed (convert_date L df)"
  by (auto simp: well_formed_def convert_date_def row_lengths_set_col split: option.splits)


















subsection \<open>Decimal text of a number\<close>

lemma lt10: "(d::nat) < 10 \<Longrightarrow>
    d = 0 \<or> d = 1 \<or> d = 2 \<or> d = 3 \<or> d = 4 \<or> d = 5 \<or> d = 6 \<or> d = 7 \<or> d = 8 \<or> d = 9"
  by arith

lemma digit_val_digit_char: "d < 10 \<Longrightarrow> digit_val (digit_char d) = d"
  using lt10 [of d] by (auto simp: digit_val_def digit_char_def)

lemma is_digit_digit_char: "d < 10 \<Longrightarrow> is_digit (digit_char d)"
  using lt10 [of d] by (auto simp: is_digit_def digit_char_def)

lemma dec_digits: "list_all is_digit (dec n)"
proof (induction n rule: dec.induct)
  case (1 n)
  show ?case
  proof (cases "n < 10")
    case True
    then show ?thesis by (simp add: dec.simps [of n] is_digit_digit_char)
  next
    case False
    with 1 show ?thesis by (simp add: dec.simps [of n] is_digit_digit_char)
  qed
qed

lemma read_digits_snoc: "read_digits (s @ [c]) = 10 * read_digits s + digit_val c"
  by (simp add: read_digits_def)

lemma read_digits_dec: "read_digits (dec n) = n"
proof (induction n rule: dec.induct)
  case (1 n)
  show ?case
  proof (cases "n < 10")
    case True
    then show ?thesis
      by (simp add: dec.simps [of n] read_digits_def digit_val_digit_char)
  next
    case False
    with 1 have "read_digits (dec (n div 10)) = n div 10" by simp
    with False show ?thesis
      by (simp add: dec.simps [of n] read_digits_snoc digit_val_digit_char)
  qed
qed

lemma dec_not_empty: "dec n \<noteq> []"
  by (simp add: dec.simps [of n])

lemma clean_value_nat: "0 \<le> n \<Longrightarrow> clean_value tt (CInt n) = Some (nat n)"
  using dec_digits [of "nat n"]
  by (simp add: clean_value_def py_str_def str_int_def strip_non_digits_def Let_def
      read_digits_dec dec_not_empty list_all_iff filter_id_conv)

subsection \<open>Columns that the normalization does not touch\<close>

lemma get_col_clean_numeric_other:
  assumes "columns df ! i \<noteq> c"
  shows "get_col i (rows (clean_numeric L c df)) = get_col i (rows df)"
proof (cases "index_of c (columns df)")
  case None
  then show ?thesis by (simp add: clean_numeric_def)
next
  case (Some j)
  with assms have "i \<noteq> j" using index_of_less by blast
  with Some show ?thesis
    by (simp add: clean_numeric_def get_set_col_other length_clean_column length_get_col)
qed

lemma get_col_convert_date_other:
  assumes "columns df ! i \<noteq> ''DateScraping''"
  shows "get_col i (rows (convert_date L df)) = get_col i (rows df)"
proof (cases "index_of ''DateScraping'' (columns df)")
  case None
  then show ?thesis by (simp add: convert_date_def)
next
  case (Some j)
  with assms have "i \<noteq> j" using index_of_less by blast
  with Some show ?thesis
    by (simp add: convert_date_def get_set_col_other length_to_datetime length_get_col)
qed

lemma set_foldl_add_key: "set (foldl add_key acc ks) = set acc \<union> set ks"
  by (induction ks arbitrary: acc) (auto simp: add_key_def)

lemma columns_from_records: "set (columns (from_records xs)) = (\<Union>r \<in> set xs. set (record_keys r))"
  by (simp add: from_records_def all_keys_def set_foldl_add_key)

text \<open>
  Claim C9. The normalization keeps the column labels, so that a recognized column that
  the payload does not have is not in the normalized table either, and it leaves the
  values of every column whose label is not \<^verbatim>\<open>Km\<close>, \<^verbatim>\<open>Prix\<close>, \<^verbatim>\<open>Mc\<close> or
  \<^verbatim>\<open>DateScraping\<close> as they are; the labels of the table of a list of records are the
  keys of the records.
\<close>

theorem normalize_frame:
  "columns (normalize L df) = columns df
   \<and> (columns df ! i \<notin> {''Km'', ''Prix'', ''Mc'', ''DateScraping''} \<longrightarrow>
        get_col i (rows (normalize L df)) = get_col i (rows df))
   \<and> set (columns (normalize L (from_records xs))) = (\<Union>r \<in> set xs. set (record_keys r))"
  by (simp add: normalize_def columns_normalize [unfolded normalize_def] columns_clean_numeric
      get_col_convert_date_other get_col_clean_numeric_other columns_from_records)

theorem normalize_frame_witness:
  "get_col 1 (rows (normalize stub_lib
      \<lparr>columns = [''Km'', ''Marque''], rows = [[CStr ''120 000 km'', CStr ''Dacia 2'']]\<rparr>))
     = [CStr ''Dacia 2'']
   \<and> columns (normalize stub_lib
      \<lparr>columns = [''Km'', ''Marque''], rows = [[CStr ''120 000 km'', CStr ''Dacia 2'']]\<rparr>)
     = [''Km'', ''Marque'']"
  using normalize_frame [of stub_lib
      "\<lparr>columns = [''Km'', ''Marque''], rows = [[CStr ''120 000 km'', CStr ''Dacia 2'']]\<rparr>" 1 "[]"]
  by (simp add: get_col_def)

subsection \<open>Running the coercion again\<close>

lemma set_col_get_col: "set_col i (get_col i rs) rs = rs"
  unfolding set_col_def get_col_def by (induction rs) auto

lemma clean_column_nat_int:
  assumes "list_all is_nat_int col"
  shows "clean_column tt col = col"
proof -
  have v: "\<exists>n. c = CInt n \<and> 0 \<le> n" if "c \<in> set col" for c
  proof -
    from that assms have "is_nat_int c" by (simp add: list_all_iff)
    then show ?thesis by (cases c) auto
  qed
  have s: "clean_value tt c \<noteq> None" if "c \<in> set col" for c
    using v [OF that] clean_value_nat by fastforce
  have e: "(case clean_value tt c of Some n \<Rightarrow> CInt (int n) | None \<Rightarrow> CNull) = c"
    if "c \<in> set col" for c
    using v [OF that] by (auto simp: clean_value_nat)
  have "map (\<lambda>c. case clean_value tt c of Some n \<Rightarrow> CInt (int n) | None \<Rightarrow> CNull) col = col"
    by (rule map_idI) (rule e)
  with s show ?thesis
    by (simp add: clean_column_def to_numeric_def list_all_iff comp_def)
qed

lemma to_datetime_stamp: "list_all is_stamp col \<Longrightarrow> to_datetime L col = col"
  unfolding to_datetime_def
  by (rule map_idI) (auto simp: list_all_iff split: cell.splits)

lemma clean_numeric_id: "column_ok is_nat_int c df \<Longrightarrow> clean_numeric L c df = df"
  by (auto simp: column_ok_def clean_numeric_def clean_column_nat_int set_col_get_col
      split: option.splits)

lemma convert_date_id: "column_ok is_stamp ''DateScraping'' df \<Longrightarrow> convert_date L df = df"
  by (auto simp: column_ok_def convert_date_def to_datetime_stamp set_col_get_col
      split: option.splits)

lemma clean_value_float: "0 \<le> n \<Longrightarrow> clean_value tt (CFloat n) = Some (nat (10 * n))"
proof -
  assume n: "0 \<le> n"
  have "filter is_digit (dec (nat n) @ ''.0'') = dec (nat n) @ ''0''"
    using dec_digits [of "nat n"] by (simp add: list_all_iff filter_id_conv is_digit_def)
  moreover have "read_digits (dec (nat n) @ ''0'') = 10 * nat n"
    by (simp add: read_digits_snoc read_digits_dec digit_val_def)
  ultimately show ?thesis
    using n by (simp add: clean_value_def py_str_def str_int_def strip_non_digits_def Let_def
        dec_not_empty nat_mult_distrib)
qed

text \<open>
  Claim C3, as stated: on a table whose numeric columns are numeric and whose date
  column holds timestamps, running the coercion again changes nothing. The table
  returned for the payload \<^verbatim>\<open>[{"Km": "120 000 km"}, {"Km": "MAD"}]\<close> has a float64
  column with a missing cell; the text of its number is \<^verbatim>\<open>120000.0\<close>, and the second
  run reads 1200000.
\<close>

theorem normalize_twice_counterexample:
  "fst (load_data stub_lib (Inr (Response 200 (Some (JList
      [JDict [(''Km'', JScalar (SStr ''120 000 km''))],
       JDict [(''Km'', JScalar (SStr ''MAD''))]])))))
     = \<lparr>columns = [''Km''], rows = [[CFloat 120000], [CNull]]\<rparr>
   \<and> normalize stub_lib \<lparr>columns = [''Km''], rows = [[CFloat 120000], [CNull]]\<rparr>
     = \<lparr>columns = [''Km''], rows = [[CFloat 1200000], [CNull]]\<rparr>"
proof -
  have f: "from_records [JDict [(''Km'', JScalar (SStr ''120 000 km''))],
        JDict [(''Km'', JScalar (SStr ''MAD''))]]
      = \<lparr>columns = [''Km''], rows = [[CStr ''120 000 km''], [CStr ''MAD'']]\<rparr>"
    by (simp add: frame_defs)
  have a: "fst (load_data stub_lib (Inr (Response 200 (Some (JList
      [JDict [(''Km'', JScalar (SStr ''120 000 km''))],
       JDict [(''Km'', JScalar (SStr ''MAD''))]])))))
     = \<lparr>columns = [''Km''], rows = [[CFloat 120000], [CNull]]\<rparr>"
    by (simp add: load_defs f) (simp add: norm_defs stub_lib_def)
  have v: "clean_value (time_text stub_lib) (CFloat 120000) = Some 1200000"
    using clean_value_float [of 120000 "time_text stub_lib"] by simp
  have m: "clean_value (time_text stub_lib) CNull = None"
    by (simp add: clean_value_def py_str_def strip_non_digits_def is_digit_def)
  have b: "normalize stub_lib \<lparr>columns = [''Km''], rows = [[CFloat 120000], [CNull]]\<rparr>
     = \<lparr>columns = [''Km''], rows = [[CFloat 1200000], [CNull]]\<rparr>"
    by (simp add: normalize_def clean_numeric_def convert_date_def get_col_def set_col_def
        clean_column_def to_numeric_def v m)
  from a b show ?thesis by (rule conjI)
qed

text \<open>
  Claim C3, amended: on a table whose columns \<^verbatim>\<open>Km\<close>, \<^verbatim>\<open>Prix\<close> and \<^verbatim>\<open>Mc\<close> are
  int64 columns of natural numbers, with no missing cell, and whose column
  \<^verbatim>\<open>DateScraping\<close> holds timestamps or missing cells, running the coercion again
  changes nothing.
\<close>

theorem normalize_idempotent_int:
  "column_ok is_nat_int ''Km'' df \<Longrightarrow> column_ok is_nat_int ''Prix'' df \<Longrightarrow>
   column_ok is_nat_int ''Mc'' df \<Longrightarrow> column_ok is_stamp ''DateScraping'' df \<Longrightarrow>
     normalize L df = df"
  by (simp add: normalize_def clean_numeric_id convert_date_id)

theorem normalize_idempotent_int_witness:
  "normalize stub_lib
      \<lparr>columns = [''Km'', ''DateScraping''], rows = [[CInt 120000, CTime 5], [CInt 0, CNull]]\<rparr>
     = \<lparr>columns = [''Km'', ''DateScraping''], rows = [[CInt 120000, CTime 5], [CInt 0, CNull]]\<rparr>"
  using normalize_idempotent_int [of
      "\<lparr>columns = [''Km'', ''DateScraping''], rows = [[CInt 120000, CTime 5], [CInt 0, CNull]]\<rparr>"
      stub_lib]
  by (simp add: column_ok_def get_col_def)

subsection \<open>The filters\<close>


text \<open>The function returns on a table whose filter columns hold texts and missing
  cells only: \<^verbatim>\<open>sorted\<close> then compares texts with texts.\<close>

lemma set_foldl_unique:
  "set (foldl (\<lambda>acc c. if list_ex (py_eq c) acc then acc else acc @ [c]) acc col)
     \<subseteq> set acc \<union> set col"
proof (induction col arbitrary: acc)
  case Nil
  show ?case by simp
next
  case (Cons a col)
  show ?case
  proof (cases "list_ex (py_eq a) acc")
    case True
    with Cons [of acc] show ?thesis by auto
  next
    case False
    with Cons [of "acc @ [a]"] show ?thesis by auto
  qed
qed

lemma set_unique: "set (unique col) \<subseteq> set col"
  using set_foldl_unique [of "[]" col] by (simp add: unique_def)

lemma py_sorted_texts:
  "list_all (\<lambda>c. is_null c \<or> is_str c) col \<Longrightarrow>
     py_sorted (unique (dropna col)) = Inr (sort_key text_of (unique (dropna col)))"
proof -
  assume a: "list_all (\<lambda>c. is_null c \<or> is_str c) col"
  have "set (unique (dropna col)) \<subseteq> set (dropna col)"
    by (rule set_unique)
  with a have "list_all is_str (unique (dropna col))"
    by (auto simp: list_all_iff dropna_def)
  then show ?thesis by (simp add: py_sorted_def)
qed

lemma filter_step_returns:
  "column_ok (\<lambda>c. is_null c \<or> is_str c) col df \<Longrightarrow>
     \<exists>g. filter_step select df (Inr f) col = Inr g"
  by (auto simp: filter_step_def column_ok_def py_sorted_texts Let_def split: option.splits)

lemma foldl_filter_step_returns:
  "\<forall>c \<in> set cols. column_ok (\<lambda>c. is_null c \<or> is_str c) c df \<Longrightarrow>
     \<exists>out. foldl (filter_step select df) (Inr f) cols = Inr out"
proof (induction cols arbitrary: f)
  case Nil
  show ?case by simp
next
  case (Cons c cols)
  then obtain g where "filter_step select df (Inr f) c = Inr g"
    using filter_step_returns [of c df select f] by auto
  with Cons show ?case by simp
qed

lemma apply_filters_returns:
  "\<forall>c \<in> set filter_columns. column_ok (\<lambda>c. is_null c \<or> is_str c) c df \<Longrightarrow>
     \<exists>out. apply_filters select df = Inr out"
  unfolding apply_filters_def by (rule foldl_filter_step_returns)










end
